theory Spec2Isabelle
  imports Main
begin

section \<open>JavaScript values\<close>

text \<open>
  The program never computes with a number: it tests one for truthiness and prints one
  into a template literal. A number is therefore kept as the text \<^verbatim>\<open>String(n)\<close> gives
  for it (\<^verbatim>\<open>3001\<close>, \<^verbatim>\<open>1.5\<close>, \<^verbatim>\<open>1e+21\<close>, \<^verbatim>\<open>NaN\<close>; both zeros print as \<^verbatim>\<open>0\<close>), which tells
  two numbers apart whenever the program can.
\<close>

datatype number = Number (decimal: string)

text \<open>
  The values that travel through \<^verbatim>\<open>src/function.ts\<close> are parsed JSON documents and the
  results of reading properties from them. \<open>JUndefined\<close> is what a read of a missing
  property gives. A parsed object is an association list of its own properties; a read
  finds the first binding of a key.
\<close>

datatype jsval =
    JUndefined
  | JNull
  | JBool bool
  | JNum number
  | JStr string
  | JArr "jsval list"
  | JObj "(string \<times> jsval) list"

text \<open>An \<^verbatim>\<open>Error\<close> object with its message: what \<^verbatim>\<open>new Error(...)\<close> builds, what axios
  rejects with, a \<^verbatim>\<open>TypeError\<close> or \<^verbatim>\<open>RangeError\<close> of the runtime.\<close>

datatype js_error = Error (message: string)

text \<open>What the user's handler throws or rejects with: an \<^verbatim>\<open>Error\<close>, or any other value
  (\<^verbatim>\<open>throw null\<close>, \<^verbatim>\<open>throw 'boom'\<close>, \<^verbatim>\<open>Promise.reject()\<close>). The cast
  \<^verbatim>\<open>(error as Error)\<close> in the route checks nothing at run time.\<close>

datatype thrown = ThrowError js_error | ThrowValue jsval

text \<open>Truthiness, as \<^verbatim>\<open>!x\<close>, \<^verbatim>\<open>x || y\<close> and \<^verbatim>\<open>x && y\<close> test it.\<close>

fun truthy :: "jsval \<Rightarrow> bool" where
  "truthy JUndefined = False"
| "truthy JNull = False"
| "truthy (JBool b) = b"
| "truthy (JNum n) = (decimal n \<noteq> ''0'' \<and> decimal n \<noteq> ''NaN'')"
| "truthy (JStr s) = (s \<noteq> [])"
| "truthy (JArr xs) = True"
| "truthy (JObj kvs) = True"

definition js_or :: "jsval \<Rightarrow> jsval \<Rightarrow> jsval" where
  "js_or a b = (if truthy a then a else b)"

text \<open>
  The read \<^verbatim>\<open>v.k\<close>. On \<^verbatim>\<open>null\<close> and \<^verbatim>\<open>undefined\<close> it throws a \<^verbatim>\<open>TypeError\<close>; on an
  object it gives the bound value or \<^verbatim>\<open>undefined\<close>; on the other values it gives
  \<^verbatim>\<open>undefined\<close> for each of the names the program reads (\<^verbatim>\<open>input\<close>, \<^verbatim>\<open>success\<close>,
  \<^verbatim>\<open>data\<close>, \<^verbatim>\<open>id\<close>, \<^verbatim>\<open>error\<close>, \<^verbatim>\<open>message\<close>), none of which is a built-in property.
\<close>

fun get_prop :: "jsval \<Rightarrow> string \<Rightarrow> js_error + jsval" where
  "get_prop JUndefined k =
     Inl (Error (''Cannot read properties of undefined (reading '' @ [CHR 39] @ k @ [CHR 39] @ '')''))"
| "get_prop JNull k =
     Inl (Error (''Cannot read properties of null (reading '' @ [CHR 39] @ k @ [CHR 39] @ '')''))"
| "get_prop (JObj kvs) k = Inr (case map_of kvs k of None \<Rightarrow> JUndefined | Some v \<Rightarrow> v)"
| "get_prop v k = Inr JUndefined"

text \<open>The read \<^verbatim>\<open>error.message\<close> on a caught value.\<close>

fun thrown_message :: "thrown \<Rightarrow> js_error + jsval" where
  "thrown_message (ThrowError e) = Inr (JStr (message e))"
| "thrown_message (ThrowValue v) = get_prop v ''message''"

text \<open>Decimal digits of an HTTP status.\<close>

fun show_nat :: "nat \<Rightarrow> string" where
  "show_nat n =
     (if n < 10 then [''0123456789'' ! n]
      else show_nat (n div 10) @ [''0123456789'' ! (n mod 10)])"

declare show_nat.simps [simp del]

fun join_comma :: "string list \<Rightarrow> string" where
  "join_comma [] = []"
| "join_comma [s] = s"
| "join_comma (s # t # ss) = s @ '','' @ join_comma (t # ss)"

text \<open>
  The string a value becomes inside a template literal \<^verbatim>\<open>`${v}`\<close>. An array joins the
  strings of its elements, with nothing for \<^verbatim>\<open>null\<close> and \<^verbatim>\<open>undefined\<close>. An object
  without a property \<^verbatim>\<open>toString\<close> of its own prints through \<^verbatim>\<open>Object.prototype\<close>; one
  that has such a property (a parsed value, never a function) cannot be converted:
  neither it nor \<^verbatim>\<open>valueOf\<close> gives a primitive, and the conversion throws a
  \<^verbatim>\<open>TypeError\<close>. The first element that throws ends the conversion of an array.
\<close>

fun to_string :: "jsval \<Rightarrow> js_error + string"
  and to_strings :: "jsval list \<Rightarrow> js_error + string list" where
  "to_string JUndefined = Inr ''undefined''"
| "to_string JNull = Inr ''null''"
| "to_string (JBool b) = Inr (if b then ''true'' else ''false'')"
| "to_string (JNum n) = Inr (decimal n)"
| "to_string (JStr s) = Inr s"
| "to_string (JArr xs) =
     (case to_strings xs of Inl e \<Rightarrow> Inl e | Inr ss \<Rightarrow> Inr (join_comma ss))"
| "to_string (JObj kvs) =
     (case map_of kvs ''toString'' of
        None \<Rightarrow> Inr ''[object Object]''
      | Some v \<Rightarrow> Inl (Error ''Cannot convert object to primitive value''))"
| "to_strings [] = Inr []"
| "to_strings (x # xs) =
     (case (if x = JUndefined \<or> x = JNull then Inr [] else to_string x) of
        Inl e \<Rightarrow> Inl e
      | Inr s \<Rightarrow> (case to_strings xs of Inl e \<Rightarrow> Inl e | Inr ss \<Rightarrow> Inr (s # ss)))"

section \<open>The world outside the instance\<close>

text \<open>
  Everything the class does to its surroundings is recorded, oldest first, in the
  \<open>effects\<close> of the state: console output (the arguments as passed, unformatted),
  outbound HTTP requests with their timeout, the listener, calls of the user's handler,
  the signal subscriptions and the end of the process. \<open>Listen port host\<close> is the call
  \<^verbatim>\<open>app.listen(port, host, callback)\<close>; \<open>Bound host port\<close> is the listener accepting
  connections on that host and port, when the callback runs. \<open>ProcessExit\<close> is
  \<^verbatim>\<open>process.exit\<close>; \<open>ProcessCrash\<close> is the runtime ending the process on an error that
  nothing handles (an unhandled rejection, an \<^verbatim>\<open>error\<close> event without a listener).
\<close>

datatype effect =
    ProcessOn string
  | ConsoleLog "jsval list"
  | ConsoleWarn "jsval list"
  | ConsoleError "jsval list"
  | HttpPost string jsval nat
  | HttpDelete string nat
  | Listen number string
  | Bound string number
  | ServerClose
  | HandlerCall jsval
  | ProcessExit int
  | ProcessCrash js_error

text \<open>What \<^verbatim>\<open>axios.post\<close> and \<^verbatim>\<open>axios.delete\<close> resolve to: a response with the status
  code of the HTTP reply and a parsed body, or a thrown error (no connection, timeout, a
  status axios rejects). The platform is a parameter of every operation that calls it.\<close>

record axios_response =
  status :: nat
  data :: jsval

record axios =
  axios_post :: "string \<Rightarrow> jsval \<Rightarrow> nat \<Rightarrow> js_error + axios_response"
  axios_delete :: "string \<Rightarrow> nat \<Rightarrow> js_error + axios_response"

text \<open>
  What \<^verbatim>\<open>app.listen(port, host, callback)\<close> does, which the host decides: it throws at
  once (a port outside 0..65535), or it returns the server and later either the callback
  runs with the listener bound on some port (the requested one, or the one the system
  chose for port 0), or the server emits \<^verbatim>\<open>error\<close> (address in use, no permission).
\<close>

datatype listen_result =
    ListenThrows js_error
  | Listening number
  | ListenFails js_error

record net =
  net_listen :: "number \<Rightarrow> string \<Rightarrow> listen_result"

text \<open>What a route sends: the status and the value given to \<^verbatim>\<open>res.json\<close>, as in
  \<^verbatim>\<open>res.status(c).json(v)\<close>; \<^verbatim>\<open>res.json(v)\<close> alone sends 200.\<close>

record response =
  res_status :: nat
  res_json :: jsval

section \<open>The class AgentFunction\<close>

type_synonym FunctionHandler = "jsval \<Rightarrow> thrown + jsval"

text \<open>\<^verbatim>\<open>FunctionOptions\<close>: the name is a string, every other field may be left out.\<close>

record FunctionOptions =
  opt_name :: string
  opt_description :: "string option"
  opt_capabilities :: "string list option"
  opt_platformUrl :: "string option"
  opt_autoRegister :: "bool option"
  opt_debug :: "bool option"

text \<open>The fields of the instance. \<open>server\<close> holds the host and port given to
  \<^verbatim>\<open>app.listen\<close>; \<open>functionId\<close> holds whatever \<^verbatim>\<open>response.data.data.id\<close> was.\<close>

record AgentFunction =
  name :: string
  description :: string
  capabilities :: "string list"
  platformUrl :: string
  autoRegister :: bool
  debug :: bool
  handler :: "FunctionHandler option"
  server :: "(string \<times> number) option"
  functionId :: jsval
  endpointUrl :: "string option"
  effects :: "effect list"

definition emit :: "AgentFunction \<Rightarrow> effect \<Rightarrow> AgentFunction" where
  "emit st e = st\<lparr>effects := effects st @ [e]\<rparr>"

definition process_exited :: "AgentFunction \<Rightarrow> bool" where
  "process_exited st =
     list_ex (\<lambda>e. case e of ProcessExit c \<Rightarrow> True | ProcessCrash x \<Rightarrow> True | _ \<Rightarrow> False)
       (effects st)"

text \<open>The constructor: defaults with \<^verbatim>\<open>||\<close> (an empty string is falsy, an array never
  is), \<^verbatim>\<open>autoRegister !== false\<close>, and the two signal subscriptions. It has no
  \<^verbatim>\<open>throw\<close>; its result is a sum so that a failing construction could be told apart.\<close>

definition constructor :: "FunctionOptions \<Rightarrow> js_error + AgentFunction" where
  "constructor options =
     Inr \<lparr> name = opt_name options,
           description = (case opt_description options of None \<Rightarrow> [] | Some d \<Rightarrow> d),
           capabilities = (case opt_capabilities options of None \<Rightarrow> [] | Some c \<Rightarrow> c),
           platformUrl =
             (case opt_platformUrl options of
                None \<Rightarrow> ''http://localhost:3000''
              | Some u \<Rightarrow> if u = [] then ''http://localhost:3000'' else u),
           autoRegister = (opt_autoRegister options \<noteq> Some False),
           debug = (case opt_debug options of None \<Rightarrow> False | Some b \<Rightarrow> b),
           handler = None,
           server = None,
           functionId = JNull,
           endpointUrl = None,
           effects = [ProcessOn ''SIGINT'', ProcessOn ''SIGTERM''] \<rparr>"

definition setHandler :: "FunctionHandler \<Rightarrow> AgentFunction \<Rightarrow> AgentFunction" where
  "setHandler h st = st\<lparr>handler := Some h\<rparr>"

subsection \<open>The route POST /execute\<close>

text \<open>\<^verbatim>\<open>req.body.input || req.body\<close>\<close>

definition inputData :: "jsval \<Rightarrow> js_error + jsval" where
  "inputData body =
     (case get_prop body ''input'' of
        Inl e \<Rightarrow> Inl e
      | Inr i \<Rightarrow> Inr (js_or i body))"

text \<open>
  The catch block of the route: it reads \<^verbatim>\<open>error.message\<close>, prints it, and builds the
  body with a template literal. When the read or the conversion throws, the exception
  leaves the async route callback: nothing is sent, and the rejection, which nothing
  handles, ends the process.
\<close>

definition execute_catch :: "thrown \<Rightarrow> AgentFunction \<Rightarrow> response option \<times> AgentFunction" where
  "execute_catch t st =
     (case thrown_message t of
        Inl e \<Rightarrow> (None, emit st (ProcessCrash e))
      | Inr m \<Rightarrow>
          let st1 = emit st (ConsoleError [JStr ''Function execution error:'', m])
          in (case to_string m of
                Inl e \<Rightarrow> (None, emit st1 (ProcessCrash e))
              | Inr s \<Rightarrow>
                  (Some \<lparr> res_status = 500,
                          res_json = JObj [(''error'', JStr (''Function execution failed: '' @ s))] \<rparr>,
                   st1)))"

text \<open>The route: the response it sends, if it sends one, and the state after it.\<close>

definition execute :: "AgentFunction \<Rightarrow> jsval \<Rightarrow> response option \<times> AgentFunction" where
  "execute st body =
     (case handler st of
        None \<Rightarrow>
          (Some \<lparr> res_status = 500,
                  res_json = JObj [(''error'', JStr ''No handler defined for this function'')] \<rparr>,
           st)
      | Some h \<Rightarrow>
          (case inputData body of
             Inl e \<Rightarrow> execute_catch (ThrowError e) st
           | Inr i \<Rightarrow>
               let st1 = (if debug st
                          then emit st (ConsoleLog [JStr ''Executing function with input:'', i])
                          else st);
                   st2 = emit st1 (HandlerCall i)
               in (case h i of
                     Inl t \<Rightarrow> execute_catch t st2
                   | Inr result \<Rightarrow>
                       (Some \<lparr> res_status = 200, res_json = result \<rparr>,
                        if debug st
                        then emit st2 (ConsoleLog [JStr ''Function execution completed:'', result])
                        else st2))))"

subsection \<open>Registration\<close>

definition endpoint_for :: "string \<Rightarrow> number \<Rightarrow> string" where
  "endpoint_for host port = ''http://'' @ host @ '':'' @ decimal port @ ''/execute''"

text \<open>\<^verbatim>\<open>!this.endpointUrl\<close>: null or the empty string.\<close>

definition endpoint_unset :: "AgentFunction \<Rightarrow> bool" where
  "endpoint_unset st = (case endpointUrl st of None \<Rightarrow> True | Some u \<Rightarrow> u = [])"

definition registrationData :: "AgentFunction \<Rightarrow> jsval" where
  "registrationData st =
     JObj [(''name'', JStr (name st)),
           (''description'', JStr (description st)),
           (''endpoint'', (case endpointUrl st of None \<Rightarrow> JNull | Some u \<Rightarrow> JStr u)),
           (''capabilities'', JArr (map JStr (capabilities st)))]"

text \<open>\<^verbatim>\<open>response.status === 201 && response.data.success && response.data.data\<close>,
  read left to right; a read that throws ends the evaluation.\<close>

definition registration_accepted :: "axios_response \<Rightarrow> js_error + bool" where
  "registration_accepted response =
     (if status response \<noteq> 201 then Inr False
      else (case get_prop (data response) ''success'' of
              Inl e \<Rightarrow> Inl e
            | Inr s \<Rightarrow>
                if \<not> truthy s then Inr False
                else (case get_prop (data response) ''data'' of
                        Inl e \<Rightarrow> Inl e
                      | Inr d \<Rightarrow> Inr (truthy d))))"

text \<open>The catch block of \<^verbatim>\<open>registerWithPlatform\<close>: log, then throw the wrapped error.\<close>

definition register_catch ::
  "js_error \<Rightarrow> AgentFunction \<Rightarrow> (js_error + jsval) \<times> AgentFunction" where
  "register_catch e st =
     (Inl (Error (''Platform registration failed: '' @ message e)),
      emit st (ConsoleError [JStr ''Failed to register with platform:'', JStr (message e)]))"

text \<open>What the else branch throws:
  \<^verbatim>\<open>throw new Error(`Registration failed: ${response.data.error || 'Unknown error'}`)\<close>,
  or the \<^verbatim>\<open>TypeError\<close> of the read when \<^verbatim>\<open>response.data\<close> is null, or the
  \<^verbatim>\<open>TypeError\<close> of the template literal. The throw is inside the try, so the same catch
  block receives it.\<close>

definition rejection_error :: "axios_response \<Rightarrow> js_error" where
  "rejection_error response =
     (case get_prop (data response) ''error'' of
        Inl e \<Rightarrow> e
      | Inr er \<Rightarrow>
          (case to_string (js_or er (JStr ''Unknown error'')) of
             Inl e \<Rightarrow> e
           | Inr s \<Rightarrow> Error (''Registration failed: '' @ s)))"

definition register_url :: "AgentFunction \<Rightarrow> string" where
  "register_url st = platformUrl st @ ''/api/agent-functions''"

text \<open>\<^verbatim>\<open>if (!this.endpointUrl) { this.endpointUrl = `http://${host}:${port}/execute`; }\<close>\<close>

definition ensure_endpoint :: "AgentFunction \<Rightarrow> string \<Rightarrow> number \<Rightarrow> AgentFunction" where
  "ensure_endpoint st host port =
     (if endpoint_unset st then st\<lparr>endpointUrl := Some (endpoint_for host port)\<rparr> else st)"

text \<open>
  \<^verbatim>\<open>registerWithPlatform(host, port)\<close>. In the accepted branch the identifier is assigned
  first, then printed in the template literal of the log line, then the body is
  returned; a conversion that throws there is caught like every other throw of the try,
  with the identifier already assigned.
\<close>

definition registerWithPlatform ::
  "axios \<Rightarrow> AgentFunction \<Rightarrow> string \<Rightarrow> number \<Rightarrow> (js_error + jsval) \<times> AgentFunction" where
  "registerWithPlatform ax st host port =
     (let st1 = ensure_endpoint st host port;
          st2 = emit st1 (HttpPost (register_url st1) (registrationData st1) 10000)
      in (case axios_post ax (register_url st1) (registrationData st1) 10000 of
            Inl e \<Rightarrow> register_catch e st2
          | Inr response \<Rightarrow>
              (case registration_accepted response of
                 Inl e \<Rightarrow> register_catch e st2
               | Inr False \<Rightarrow> register_catch (rejection_error response) st2
               | Inr True \<Rightarrow>
                   (case get_prop (data response) ''data'' of
                      Inl e \<Rightarrow> register_catch e st2
                    | Inr d \<Rightarrow>
                        (case get_prop d ''id'' of
                           Inl e \<Rightarrow> register_catch e st2
                         | Inr i \<Rightarrow>
                             (case to_string i of
                                Inl e \<Rightarrow> register_catch e (st2\<lparr>functionId := i\<rparr>)
                              | Inr s \<Rightarrow>
                                  (Inr (data response),
                                   emit (st2\<lparr>functionId := i\<rparr>)
                                     (ConsoleLog
                                        [JStr (''Successfully registered function '' @ [CHR 39]
                                               @ name st2 @ [CHR 39] @ '' with ID: '' @ s)]))))))))"

subsection \<open>Deregistration\<close>

text \<open>The URL of the delete request, a template literal that prints the identifier.\<close>

definition unregister_url :: "AgentFunction \<Rightarrow> js_error + string" where
  "unregister_url st =
     (case to_string (functionId st) of
        Inl e \<Rightarrow> Inl e
      | Inr s \<Rightarrow> Inr (platformUrl st @ ''/api/agent-functions/'' @ s))"

text \<open>\<^verbatim>\<open>unregisterFromPlatform()\<close>. The URL is built inside the try, so a conversion that
  throws is caught and reported as \<^verbatim>\<open>false\<close> like a failed request.\<close>

definition unregister_catch :: "js_error \<Rightarrow> AgentFunction \<Rightarrow> bool \<times> AgentFunction" where
  "unregister_catch e st =
     (False,
      emit st (ConsoleError [JStr ''Failed to unregister from platform:'', JStr (message e)]))"

definition unregisterFromPlatform :: "axios \<Rightarrow> AgentFunction \<Rightarrow> bool \<times> AgentFunction" where
  "unregisterFromPlatform ax st =
     (if \<not> truthy (functionId st)
      then (False, emit st (ConsoleWarn [JStr ''No function ID available, cannot unregister'']))
      else
        (case unregister_url st of
           Inl e \<Rightarrow> unregister_catch e st
         | Inr url \<Rightarrow>
             let st1 = emit st (HttpDelete url 10000)
             in (case axios_delete ax url 10000 of
                   Inl e \<Rightarrow> unregister_catch e st1
                 | Inr response \<Rightarrow>
                     if status response = 200
                     then (True,
                           emit st1 (ConsoleLog [JStr (''Successfully unregistered function ''
                                                       @ [CHR 39] @ name st1 @ [CHR 39])]))
                     else (False,
                           emit st1 (ConsoleError [JStr (''Failed to unregister: HTTP ''
                                                         @ show_nat (status response))])))))"

subsection \<open>run, stop and the signal handler\<close>

text \<open>
  \<^verbatim>\<open>run(port, host)\<close>: what its promise settles to, if it settles, and the state after
  it. The throw for a missing handler comes first, then the registration inside its own
  try, then the four console lines and \<^verbatim>\<open>app.listen(port, host, callback)\<close> inside the
  executor of the promise. When that call throws, the promise rejects and \<open>server\<close> is
  not assigned. When it returns, \<open>server\<close> is assigned; the promise resolves in the
  callback, and the source sets no error listener: an \<^verbatim>\<open>error\<close> event ends the process
  and the promise never settles. The defaults of the source (port 3001, host
  \<^verbatim>\<open>localhost\<close>) are what a caller passes who leaves an argument out.
\<close>

definition run ::
  "axios \<Rightarrow> net \<Rightarrow> AgentFunction \<Rightarrow> number \<Rightarrow> string
     \<Rightarrow> (js_error + unit) option \<times> AgentFunction" where
  "run ax nt st port host =
     (if handler st = None
      then (Some (Inl (Error ''No handler defined. Use setHandler() first.'')), st)
      else
        let st1 =
              (if autoRegister st
               then (case registerWithPlatform ax st host port of
                       (Inr v, s) \<Rightarrow> s
                     | (Inl e, s) \<Rightarrow>
                         emit (emit s (ConsoleWarn [JStr ''Auto-registration failed:'',
                                                    JStr (message e)]))
                           (ConsoleLog [JStr (''Function will still run, but won'' @ [CHR 39]
                                              @ ''t be registered with platform'')]))
               else st);
            at = host @ '':'' @ decimal port;
            st2 = emit st1 (ConsoleLog [JStr (''Starting '' @ name st1 @ '' on '' @ at)]);
            st3 = emit st2 (ConsoleLog [JStr (''Health check: http://'' @ at @ ''/health'')]);
            st4 = emit st3 (ConsoleLog [JStr (''Execute endpoint: http://'' @ at @ ''/execute'')]);
            st5 = emit st4 (ConsoleLog [JStr (''Function info: http://'' @ at @ ''/info'')]);
            st6 = emit st5 (Listen port host)
        in (case net_listen nt port host of
              ListenThrows e \<Rightarrow> (Some (Inl e), st6)
            | ListenFails e \<Rightarrow> (None, emit (st6\<lparr>server := Some (host, port)\<rparr>) (ProcessCrash e))
            | Listening p \<Rightarrow>
                (Some (Inr ()),
                 emit (emit (st6\<lparr>server := Some (host, port)\<rparr>) (Bound host p))
                   (ConsoleLog [JStr (''Agent function '' @ [CHR 39] @ name st6 @ [CHR 39]
                                      @ '' is running on port '' @ decimal port)]))))"

text \<open>\<^verbatim>\<open>stop()\<close> closes the server when there is one and leaves the field as it is; the
  deregistration it attempts cannot throw.\<close>

definition stop :: "axios \<Rightarrow> AgentFunction \<Rightarrow> AgentFunction" where
  "stop ax st =
     (let st1 = (if server st \<noteq> None then emit st ServerClose else st)
      in if autoRegister st1 \<and> truthy (functionId st1)
         then snd (unregisterFromPlatform ax st1)
         else st1)"

definition signalHandler :: "axios \<Rightarrow> AgentFunction \<Rightarrow> string \<Rightarrow> AgentFunction" where
  "signalHandler ax st signal =
     (let st1 = emit st (ConsoleLog [JStr ([CHR 10] @ ''Shutting down agent function (''
                                           @ signal @ '')...'')])
      in emit (stop ax st1) (ProcessExit 0))"

text \<open>\<^verbatim>\<open>createFunction(name, handler, options)\<close>\<close>

definition createFunction ::
  "string \<Rightarrow> FunctionHandler \<Rightarrow> FunctionOptions \<Rightarrow> js_error + AgentFunction" where
  "createFunction n h options =
     (case constructor (options\<lparr>opt_name := n\<rparr>) of
        Inl e \<Rightarrow> Inl e
      | Inr st \<Rightarrow> Inr (setHandler h st))"

section \<open>Lifecycles\<close>

text \<open>The public operations a caller or the platform can apply to an instance, each
  with the platform and the host it meets, and the state after a sequence of them.\<close>

datatype action =
    SetHandler FunctionHandler
  | Execute jsval
  | RegisterWithPlatform axios string number
  | UnregisterFromPlatform axios
  | Run axios net number string
  | Stop axios

fun step :: "AgentFunction \<Rightarrow> action \<Rightarrow> AgentFunction" where
  "step st (SetHandler h) = setHandler h st"
| "step st (Execute body) = snd (execute st body)"
| "step st (RegisterWithPlatform ax host port) = snd (registerWithPlatform ax st host port)"
| "step st (UnregisterFromPlatform ax) = snd (unregisterFromPlatform ax st)"
| "step st (Run ax nt port host) = snd (run ax nt st port host)"
| "step st (Stop ax) = stop ax st"

text \<open>A call of \<^verbatim>\<open>registerWithPlatform\<close> made by the caller, not by \<^verbatim>\<open>run\<close>.\<close>

fun direct_registration :: "action \<Rightarrow> bool" where
  "direct_registration (RegisterWithPlatform ax host port) = True"
| "direct_registration a = False"

text \<open>The reply to the request that \<^verbatim>\<open>registerWithPlatform(host, port)\<close> sends, and
  whether it is one the guard accepts.\<close>

definition registration_reply ::
  "axios \<Rightarrow> AgentFunction \<Rightarrow> string \<Rightarrow> number \<Rightarrow> js_error + axios_response" where
  "registration_reply ax st host port =
     axios_post ax (register_url (ensure_endpoint st host port))
       (registrationData (ensure_endpoint st host port)) 10000"

definition reply_accepted :: "axios \<Rightarrow> AgentFunction \<Rightarrow> string \<Rightarrow> number \<Rightarrow> bool" where
  "reply_accepted ax st host port =
     (case registration_reply ax st host port of
        Inl e \<Rightarrow> False
      | Inr r \<Rightarrow> registration_accepted r = Inr True)"

text \<open>The action, applied in this state, makes a registration call whose reply is
  accepted.\<close>

fun registers :: "AgentFunction \<Rightarrow> action \<Rightarrow> bool" where
  "registers st (RegisterWithPlatform ax host port) = reply_accepted ax st host port"
| "registers st (Run ax nt port host) =
     (handler st \<noteq> None \<and> autoRegister st \<and> reply_accepted ax st host port)"
| "registers st a = False"

fun no_registration :: "AgentFunction \<Rightarrow> action list \<Rightarrow> bool" where
  "no_registration st [] = True"
| "no_registration st (a # as) = (\<not> registers st a \<and> no_registration (step st a) as)"

text \<open>In this action, \<^verbatim>\<open>app.listen\<close> binds the listener on the port it is given.\<close>

fun binds :: "action \<Rightarrow> bool" where
  "binds (Run ax nt port host) = (net_listen nt port host = Listening port)"
| "binds a = True"

text \<open>A listener has been bound whose \<^verbatim>\<open>/execute\<close> route is the URL \<open>u\<close>.\<close>

definition bound_at :: "AgentFunction \<Rightarrow> string \<Rightarrow> bool" where
  "bound_at st u =
     list_ex (\<lambda>e. case e of Bound host port \<Rightarrow> endpoint_for host port = u | _ \<Rightarrow> False)
       (effects st)"

text \<open>\<^verbatim>\<open>app.listen\<close> has been called; a listener has been bound.\<close>

definition listened :: "AgentFunction \<Rightarrow> bool" where
  "listened st = list_ex (\<lambda>e. case e of Listen port host \<Rightarrow> True | _ \<Rightarrow> False) (effects st)"

definition bound :: "AgentFunction \<Rightarrow> bool" where
  "bound st = list_ex (\<lambda>e. case e of Bound host port \<Rightarrow> True | _ \<Rightarrow> False) (effects st)"

text \<open>The endpoint URL on record, if any, is one a listener has been bound at; with no
  URL on record there is no identifier either.\<close>

definition backed :: "AgentFunction \<Rightarrow> bool" where
  "backed st =
     (case endpointUrl st of
        None \<Rightarrow> \<not> truthy (functionId st)
      | Some u \<Rightarrow> bound_at st u)"



section \<open>Concrete instances and platforms\<close>

definition echo :: FunctionHandler where
  "echo x = Inr (JObj [(''echo'', x)])"




definition echo_options :: FunctionOptions where
  "echo_options =
     \<lparr> opt_name = ''Echo'', opt_description = None, opt_capabilities = None,
       opt_platformUrl = None, opt_autoRegister = None, opt_debug = None \<rparr>"

text \<open>What \<^verbatim>\<open>new AgentFunction({name: 'Echo'})\<close> builds.\<close>

definition fresh_instance :: AgentFunction where
  "fresh_instance =
     \<lparr> name = ''Echo'', description = [], capabilities = [],
       platformUrl = ''http://localhost:3000'', autoRegister = True, debug = False,
       handler = None, server = None, functionId = JNull, endpointUrl = None,
       effects = [ProcessOn ''SIGINT'', ProcessOn ''SIGTERM''] \<rparr>"

definition echo_instance :: AgentFunction where
  "echo_instance = setHandler echo fresh_instance"




text \<open>A platform that answers 201 with \<^verbatim>\<open>{success: true, data: {id: "X"}}\<close> and
  deletes with 200; one that cannot be reached; one that answers 201 with
  \<^verbatim>\<open>{success: true, data: 0}\<close>.\<close>

definition created_body :: jsval where
  "created_body = JObj [(''success'', JBool True), (''data'', JObj [(''id'', JStr ''X'')])]"

definition platform_created :: axios where
  "platform_created =
     \<lparr> axios_post = (\<lambda>url payload timeout. Inr \<lparr> status = 201, data = created_body \<rparr>),
       axios_delete = (\<lambda>url timeout. Inr \<lparr> status = 200, data = JObj [] \<rparr>) \<rparr>"

definition platform_down :: axios where
  "platform_down =
     \<lparr> axios_post = (\<lambda>url payload timeout. Inl (Error ''connect ECONNREFUSED 127.0.0.1:3000'')),
       axios_delete = (\<lambda>url timeout. Inl (Error ''connect ECONNREFUSED 127.0.0.1:3000'')) \<rparr>"



text \<open>A platform that answers 201 with
  \<^verbatim>\<open>{success: true, data: {id: {toString: 1}}}\<close>.\<close>

definition unprintable_id :: jsval where
  "unprintable_id = JObj [(''toString'', JNum (Number ''1''))]"

definition unprintable_id_body :: jsval where
  "unprintable_id_body =
     JObj [(''success'', JBool True), (''data'', JObj [(''id'', unprintable_id)])]"

definition platform_unprintable_id :: axios where
  "platform_unprintable_id =
     \<lparr> axios_post = (\<lambda>url payload timeout. Inr \<lparr> status = 201, data = unprintable_id_body \<rparr>),
       axios_delete = (\<lambda>url timeout. Inr \<lparr> status = 200, data = JObj [] \<rparr>) \<rparr>"

text \<open>A host on which every port is free: \<^verbatim>\<open>app.listen\<close> throws for port 70000, lets the
  system choose for port 0, and binds the port it is given otherwise. A host on which
  the port is taken.\<close>

definition net_free :: net where
  "net_free =
     \<lparr> net_listen = (\<lambda>port host.
         if port = Number ''70000''
         then ListenThrows
                (Error ''options.port should be >= 0 and < 65536. Received type number (70000).'')
         else if port = Number ''0'' then Listening (Number ''49152'')
         else Listening port) \<rparr>"


text \<open>The echo instance after a direct \<^verbatim>\<open>registerWithPlatform('localhost', 3001)\<close> that
  the platform accepts.\<close>

definition registered_instance :: AgentFunction where
  "registered_instance =
     snd (registerWithPlatform platform_created echo_instance (''localhost'') (Number ''3001''))"

section \<open>Basic facts\<close>

lemma emit_simps [simp]:
  "effects (emit st e) = effects st @ [e]"
  "functionId (emit st e) = functionId st"
  "endpointUrl (emit st e) = endpointUrl st"
  "server (emit st e) = server st"
  "handler (emit st e) = handler st"
  "autoRegister (emit st e) = autoRegister st"
  "debug (emit st e) = debug st"
  "name (emit st e) = name st"
  "platformUrl (emit st e) = platformUrl st"
  by (simp_all add: emit_def)

lemma process_exited_emit [simp]:
  "process_exited (emit st e)
     = (process_exited st \<or> (\<exists>c. e = ProcessExit c) \<or> (\<exists>x. e = ProcessCrash x))"
  by (cases e) (simp_all add: process_exited_def)

lemma constructor_echo: "constructor echo_options = Inr fresh_instance"
  by (simp add: constructor_def echo_options_def fresh_instance_def)

lemma createFunction_echo: "createFunction ''Echo'' echo echo_options = Inr echo_instance"
  by (simp add: createFunction_def constructor_def echo_options_def fresh_instance_def
      echo_instance_def)


section \<open>The route POST /execute\<close>

text \<open>
  C1. With a handler attached, a POST to \<^verbatim>\<open>/execute\<close> whose body is \<^verbatim>\<open>{input: X}\<close>
  calls the handler (on \<^verbatim>\<open>req.body.input || req.body\<close>), and when that call returns a
  value the response has status 200 and that value, unchanged, as its body.
\<close>

theorem execute_returns_result:
  assumes "handler st = Some h"
  shows "HandlerCall (js_or X (JObj [(''input'', X)]))
           \<in> set (effects (snd (execute st (JObj [(''input'', X)]))))
         \<and> (\<forall>r. h (js_or X (JObj [(''input'', X)])) = Inr r \<longrightarrow>
               fst (execute st (JObj [(''input'', X)]))
                 = Some \<lparr> res_status = 200, res_json = r \<rparr>)"
  using assms
  by (auto simp: execute_def inputData_def execute_catch_def Let_def split: sum.splits)

theorem execute_returns_result_witness:
  "handler echo_instance = Some echo
   \<and> HandlerCall (JObj [(''a'', JNum (Number ''1''))])
       \<in> set (effects (snd (execute echo_instance
                                (JObj [(''input'', JObj [(''a'', JNum (Number ''1''))])]))))
   \<and> fst (execute echo_instance (JObj [(''input'', JObj [(''a'', JNum (Number ''1''))])]))
       = Some \<lparr> res_status = 200,
                res_json = JObj [(''echo'', JObj [(''a'', JNum (Number ''1''))])] \<rparr>"
proof -
  have h: "handler echo_instance = Some echo"
    by (simp add: echo_instance_def setHandler_def)
  have r: "echo (js_or (JObj [(''a'', JNum (Number ''1''))])
                   (JObj [(''input'', JObj [(''a'', JNum (Number ''1''))])]))
             = Inr (JObj [(''echo'', JObj [(''a'', JNum (Number ''1''))])])"
    by (simp add: echo_def js_or_def)
  show ?thesis
    using h r execute_returns_result [OF h, of "JObj [(''a'', JNum (Number ''1''))]"]
    by (simp add: js_or_def)
qed




text \<open>
  C6. The claim: the handler receives the body's \<^verbatim>\<open>input\<close> field, and the whole body
  only when that field is absent. At the body \<^verbatim>\<open>{"input": 0}\<close> the field is there, yet
  \<^verbatim>\<open>req.body.input || req.body\<close> hands the handler the whole body: the echo handler is
  called on \<^verbatim>\<open>{"input": 0}\<close>, never on \<^verbatim>\<open>0\<close>.
\<close>

theorem execute_falsy_input_passes_body:
  "fst (execute echo_instance (JObj [(''input'', JNum (Number ''0''))]))
     = Some \<lparr> res_status = 200,
              res_json = JObj [(''echo'', JObj [(''input'', JNum (Number ''0''))])] \<rparr>
   \<and> HandlerCall (JObj [(''input'', JNum (Number ''0''))])
       \<in> set (effects (snd (execute echo_instance (JObj [(''input'', JNum (Number ''0''))]))))
   \<and> HandlerCall (JNum (Number ''0''))
       \<notin> set (effects (snd (execute echo_instance (JObj [(''input'', JNum (Number ''0''))]))))"
  by (simp add: execute_def inputData_def js_or_def echo_instance_def setHandler_def
      fresh_instance_def echo_def Let_def)

section \<open>Registration\<close>

lemma ensure_endpoint_simps [simp]:
  "effects (ensure_endpoint st host port) = effects st"
  "functionId (ensure_endpoint st host port) = functionId st"
  "server (ensure_endpoint st host port) = server st"
  "handler (ensure_endpoint st host port) = handler st"
  "autoRegister (ensure_endpoint st host port) = autoRegister st"
  "name (ensure_endpoint st host port) = name st"
  "platformUrl (ensure_endpoint st host port) = platformUrl st"
  "endpointUrl (ensure_endpoint st host port)
     = (if endpoint_unset st then Some (endpoint_for host port) else endpointUrl st)"
  by (simp_all add: ensure_endpoint_def)

lemma truthy_get_prop: "truthy d \<Longrightarrow> \<exists>i. get_prop d k = Inr i"
  by (cases d) simp_all


lemma register_catch_simps [simp]:
  "fst (register_catch e st) = Inl (Error (''Platform registration failed: '' @ message e))"
  "snd (register_catch e st)
     = emit st (ConsoleError [JStr ''Failed to register with platform:'', JStr (message e)])"
  by (simp_all add: register_catch_def)

lemma register_post_error:
  assumes "registration_reply ax st host port = Inl e"
  shows "registerWithPlatform ax st host port
           = register_catch e
               (emit (ensure_endpoint st host port)
                  (HttpPost (register_url (ensure_endpoint st host port))
                     (registrationData (ensure_endpoint st host port)) 10000))"
  using assms by (simp add: registerWithPlatform_def registration_reply_def Let_def)

lemma register_not_accepted:
  assumes "registration_reply ax st host port = Inr r"
    and "registration_accepted r \<noteq> Inr True"
  shows "registerWithPlatform ax st host port
           = register_catch (case registration_accepted r of Inl e \<Rightarrow> e | Inr b \<Rightarrow> rejection_error r)
               (emit (ensure_endpoint st host port)
                  (HttpPost (register_url (ensure_endpoint st host port))
                     (registrationData (ensure_endpoint st host port)) 10000))"
  using assms
  by (simp add: registerWithPlatform_def registration_reply_def Let_def
      split: sum.splits bool.splits)

lemma register_accepted:
  assumes "registration_reply ax st host port = Inr r"
    and "registration_accepted r = Inr True"
  shows "\<exists>d i. get_prop (data r) ''data'' = Inr d \<and> get_prop d ''id'' = Inr i
           \<and> registerWithPlatform ax st host port
               = (case to_string i of
                    Inl e \<Rightarrow>
                      register_catch e
                        ((emit (ensure_endpoint st host port)
                            (HttpPost (register_url (ensure_endpoint st host port))
                               (registrationData (ensure_endpoint st host port)) 10000))
                         \<lparr>functionId := i\<rparr>)
                  | Inr s \<Rightarrow>
                      (Inr (data r),
                       emit ((emit (ensure_endpoint st host port)
                                (HttpPost (register_url (ensure_endpoint st host port))
                                   (registrationData (ensure_endpoint st host port)) 10000))
                             \<lparr>functionId := i\<rparr>)
                         (ConsoleLog
                            [JStr (''Successfully registered function '' @ [CHR 39]
                                   @ name st @ [CHR 39] @ '' with ID: '' @ s)])))"
proof -
  from assms(2) obtain d where d: "get_prop (data r) ''data'' = Inr d" "truthy d"
    by (auto simp: registration_accepted_def split: sum.splits if_splits)
  from truthy_get_prop [OF d(2)] obtain i where i: "get_prop d ''id'' = Inr i"
    by blast
  show ?thesis
    using assms d i
    by (simp add: registerWithPlatform_def registration_reply_def Let_def split: sum.splits)
qed

lemma registerWithPlatform_cases:
  fixes ax st host port
  defines "st1 \<equiv> ensure_endpoint st host port"
  defines "st2 \<equiv> emit st1 (HttpPost (register_url st1) (registrationData st1) 10000)"
  shows "(\<exists>e. registration_reply ax st host port = Inl e
              \<and> registerWithPlatform ax st host port = register_catch e st2)
         \<or> (\<exists>r. registration_reply ax st host port = Inr r
              \<and> registration_accepted r \<noteq> Inr True
              \<and> registerWithPlatform ax st host port
                  = register_catch
                      (case registration_accepted r of Inl e \<Rightarrow> e | Inr b \<Rightarrow> rejection_error r) st2)
         \<or> (\<exists>r d i e. registration_reply ax st host port = Inr r
              \<and> registration_accepted r = Inr True
              \<and> get_prop (data r) ''data'' = Inr d \<and> get_prop d ''id'' = Inr i
              \<and> to_string i = Inl e
              \<and> registerWithPlatform ax st host port
                  = register_catch e (st2\<lparr>functionId := i\<rparr>))
         \<or> (\<exists>r d i s. registration_reply ax st host port = Inr r
              \<and> registration_accepted r = Inr True
              \<and> get_prop (data r) ''data'' = Inr d \<and> get_prop d ''id'' = Inr i
              \<and> to_string i = Inr s
              \<and> registerWithPlatform ax st host port
                  = (Inr (data r),
                     emit (st2\<lparr>functionId := i\<rparr>)
                       (ConsoleLog
                          [JStr (''Successfully registered function '' @ [CHR 39]
                                 @ name st @ [CHR 39] @ '' with ID: '' @ s)])))"
proof (cases "registration_reply ax st host port")
  case (Inl e)
  then show ?thesis
    using register_post_error [of ax st host port e] by (simp add: st1_def st2_def)
next
  case (Inr r)
  show ?thesis
  proof (cases "registration_accepted r = Inr True")
    case True
    from register_accepted [OF Inr True] obtain d i where
      di: "get_prop (data r) ''data'' = Inr d" "get_prop d ''id'' = Inr i"
      and R: "registerWithPlatform ax st host port
               = (case to_string i of
                    Inl e \<Rightarrow> register_catch e (st2\<lparr>functionId := i\<rparr>)
                  | Inr s \<Rightarrow>
                      (Inr (data r),
                       emit (st2\<lparr>functionId := i\<rparr>)
                         (ConsoleLog
                            [JStr (''Successfully registered function '' @ [CHR 39]
                                   @ name st @ [CHR 39] @ '' with ID: '' @ s)])))"
      unfolding st1_def st2_def by blast
    show ?thesis
    proof (cases "to_string i")
      case (Inl e)
      then show ?thesis using Inr True di R by auto
    next
      case (Inr s)
      then show ?thesis using \<open>registration_reply ax st host port = Inr r\<close> True di R by auto
    qed
  next
    case False
    then show ?thesis
      using Inr register_not_accepted [of ax st host port r] by (simp add: st1_def st2_def)
  qed
qed

lemma reply_accepted_iff:
  "reply_accepted ax st host port
   \<longleftrightarrow> (\<exists>r. registration_reply ax st host port = Inr r \<and> registration_accepted r = Inr True)"
  by (auto simp: reply_accepted_def split: sum.splits)

lemma register_frame:
  "handler (snd (registerWithPlatform ax st host port)) = handler st"
  "autoRegister (snd (registerWithPlatform ax st host port)) = autoRegister st"
  "server (snd (registerWithPlatform ax st host port)) = server st"
  "set (effects st) \<subseteq> set (effects (snd (registerWithPlatform ax st host port)))"
  "endpointUrl (snd (registerWithPlatform ax st host port))
     = (if endpoint_unset st then Some (endpoint_for host port) else endpointUrl st)"
  using registerWithPlatform_cases [of ax st host port]
  by auto

lemma register_unaccepted_frame:
  assumes "\<not> reply_accepted ax st host port"
  shows "functionId (snd (registerWithPlatform ax st host port)) = functionId st"
    and "\<exists>e. fst (registerWithPlatform ax st host port) = Inl e"
  using assms registerWithPlatform_cases [of ax st host port]
  by (auto simp: reply_accepted_iff)

lemma register_created:
  "fst (registerWithPlatform platform_created st host port) = Inr created_body"
  "functionId (snd (registerWithPlatform platform_created st host port)) = JStr ''X''"
  by (simp_all add: registerWithPlatform_def platform_created_def created_body_def
      registration_accepted_def Let_def)

lemma register_down:
  "fst (registerWithPlatform platform_down st host port)
     = Inl (Error ''Platform registration failed: connect ECONNREFUSED 127.0.0.1:3000'')"
  "\<not> reply_accepted platform_down st host port"
  by (simp_all add: registerWithPlatform_def platform_down_def Let_def reply_accepted_def
      registration_reply_def)

lemma echo_instance_fields:
  "handler echo_instance = Some echo" "autoRegister echo_instance"
  "functionId echo_instance = JNull" "endpointUrl echo_instance = None"
  "server echo_instance = None" "endpoint_unset echo_instance"
  "effects echo_instance = [ProcessOn ''SIGINT'', ProcessOn ''SIGTERM'']"
  by (simp_all add: echo_instance_def setHandler_def fresh_instance_def endpoint_unset_def)




text \<open>
  C10, as claimed: when \<^verbatim>\<open>registerWithPlatform\<close> fails, the identifier is the one from
  before the call. The platform that answers 201 with
  \<^verbatim>\<open>{success: true, data: {id: {toString: 1}}}\<close> is accepted and the identifier assigned;
  the log line that follows cannot print it and throws inside the try, so the call fails
  with the identifier changed from \<^verbatim>\<open>null\<close> to that object.
\<close>

theorem registerWithPlatform_failure_changes_id:
  "functionId echo_instance = JNull
   \<and> fst (registerWithPlatform platform_unprintable_id echo_instance ''localhost''
            (Number ''3001''))
       = Inl (Error ''Platform registration failed: Cannot convert object to primitive value'')
   \<and> functionId (snd (registerWithPlatform platform_unprintable_id echo_instance ''localhost''
                          (Number ''3001'')))
       = JObj [(''toString'', JNum (Number ''1''))]"
  by (simp add: registerWithPlatform_def platform_unprintable_id_def unprintable_id_body_def
      unprintable_id_def registration_accepted_def Let_def echo_instance_fields)

text \<open>
  C10, amended: when the platform's reply is not accepted (axios throws, the status is
  not 201, \<^verbatim>\<open>success\<close> or \<^verbatim>\<open>data\<close> is falsy, or a read throws), \<^verbatim>\<open>registerWithPlatform\<close>
  fails and the stored identifier is the one from before the call: the identifier is
  assigned only once a reply has been accepted. The endpoint URL has been computed all
  the same when it was not set.
\<close>

theorem registerWithPlatform_failure_keeps_id:
  assumes "\<not> reply_accepted ax st host port"
  shows "(\<exists>e. fst (registerWithPlatform ax st host port) = Inl e)
         \<and> functionId (snd (registerWithPlatform ax st host port)) = functionId st
         \<and> endpointUrl (snd (registerWithPlatform ax st host port))
             = (if endpoint_unset st then Some (endpoint_for host port) else endpointUrl st)"
  using register_unaccepted_frame [OF assms] register_frame(5) [of ax st host port]
  by simp

theorem registerWithPlatform_failure_keeps_id_witness:
  "\<not> reply_accepted platform_down registered_instance ''localhost'' (Number ''3002'')
   \<and> fst (registerWithPlatform platform_down registered_instance ''localhost'' (Number ''3002''))
       = Inl (Error ''Platform registration failed: connect ECONNREFUSED 127.0.0.1:3000'')
   \<and> functionId registered_instance = JStr ''X''
   \<and> functionId (snd (registerWithPlatform platform_down registered_instance ''localhost''
                          (Number ''3002'')))
       = JStr ''X''
   \<and> endpointUrl (snd (registerWithPlatform platform_down echo_instance ''localhost''
                           (Number ''3001'')))
       = Some ''http://localhost:3001/execute''"
proof -
  have r: "functionId registered_instance = JStr ''X''"
    by (simp add: registered_instance_def register_created)
  have p: "endpoint_for ''localhost'' (Number ''3001'') = ''http://localhost:3001/execute''"
    by (simp add: endpoint_for_def)
  show ?thesis
    using r p register_down
      registerWithPlatform_failure_keeps_id
        [OF register_down(2), of registered_instance "''localhost''" "Number ''3002''"]
      registerWithPlatform_failure_keeps_id
        [OF register_down(2), of echo_instance "''localhost''" "Number ''3001''"]
    by (simp add: echo_instance_fields)
qed

section \<open>Construction and start\<close>

text \<open>
  C8. When no handler is attached, \<^verbatim>\<open>run\<close> fails with the error
  \<^verbatim>\<open>No handler defined. Use setHandler() first.\<close> and leaves the instance and the world
  as they were: no listener, no registration request.
\<close>

theorem run_without_handler:
  assumes "handler st = None"
  shows "run ax nt st port host
           = (Some (Inl (Error ''No handler defined. Use setHandler() first.'')), st)"
  using assms by (simp add: run_def)

theorem run_without_handler_witness:
  "handler fresh_instance = None
   \<and> run platform_created net_free fresh_instance (Number ''3001'') ''localhost''
       = (Some (Inl (Error ''No handler defined. Use setHandler() first.'')), fresh_instance)
   \<and> server fresh_instance = None \<and> \<not> listened fresh_instance"
proof -
  have h: "handler fresh_instance = None"
    by (simp add: fresh_instance_def)
  have l: "server fresh_instance = None \<and> \<not> listened fresh_instance"
    by (simp add: fresh_instance_def listened_def)
  show ?thesis
    using h l run_without_handler [OF h, of platform_created net_free "Number ''3001''" "''localhost''"]
    by simp
qed

text \<open>
  C9, as claimed: construction fails when the name is empty. It does not: the options
  \<^verbatim>\<open>{name: ""}\<close> give an instance whose name is the empty string.
\<close>

theorem constructor_empty_name:
  "constructor (echo_options\<lparr>opt_name := []\<rparr>) = Inr (fresh_instance\<lparr>name := []\<rparr>)"
  by (simp add: constructor_def echo_options_def fresh_instance_def)

text \<open>
  C9, amended: construction never fails; the name is stored as it was given, with no
  check, and the new instance has no handler and no registration identifier.
\<close>

theorem constructor_never_fails:
  "\<exists>st. constructor options = Inr st \<and> name st = opt_name options
        \<and> handler st = None \<and> functionId st = JNull"
  by (simp add: constructor_def)

text \<open>The state in which \<^verbatim>\<open>run\<close> calls \<^verbatim>\<open>app.listen\<close>, and what the call makes of it.\<close>

lemma run_no_handler: "handler st = None \<Longrightarrow> snd (run ax nt st port host) = st"
  by (simp add: run_def)

lemma run_unregistered:
  assumes "handler st = Some h" and "\<not> autoRegister st"
  shows "functionId (snd (run ax nt st port host)) = functionId st"
    and "endpointUrl (snd (run ax nt st port host)) = endpointUrl st"
    and "handler (snd (run ax nt st port host)) = handler st"
    and "autoRegister (snd (run ax nt st port host)) = autoRegister st"
    and "Listen port host \<in> set (effects (snd (run ax nt st port host)))"
    and "set (effects st) \<subseteq> set (effects (snd (run ax nt st port host)))"
    and "net_listen nt port host = Listening p
         \<Longrightarrow> fst (run ax nt st port host) = Some (Inr ())
             \<and> server (snd (run ax nt st port host)) = Some (host, port)
             \<and> Bound host p \<in> set (effects (snd (run ax nt st port host)))"
  using assms by (auto simp: run_def Let_def split: listen_result.splits)

lemma run_registered:
  assumes "handler st = Some h" and "autoRegister st"
  shows "functionId (snd (run ax nt st port host))
           = functionId (snd (registerWithPlatform ax st host port))"
    and "endpointUrl (snd (run ax nt st port host))
           = (if endpoint_unset st then Some (endpoint_for host port) else endpointUrl st)"
    and "handler (snd (run ax nt st port host)) = handler st"
    and "autoRegister (snd (run ax nt st port host)) = autoRegister st"
    and "Listen port host \<in> set (effects (snd (run ax nt st port host)))"
    and "set (effects st) \<subseteq> set (effects (snd (run ax nt st port host)))"
    and "net_listen nt port host = Listening p
         \<Longrightarrow> fst (run ax nt st port host) = Some (Inr ())
             \<and> server (snd (run ax nt st port host)) = Some (host, port)
             \<and> Bound host p \<in> set (effects (snd (run ax nt st port host)))"
    and "fst (registerWithPlatform ax st host port) = Inl e
         \<Longrightarrow> ConsoleWarn [JStr ''Auto-registration failed:'', JStr (message e)]
               \<in> set (effects (snd (run ax nt st port host)))"
proof -
  obtain r s where rs: "registerWithPlatform ax st host port = (r, s)"
    by (cases "registerWithPlatform ax st host port")
  have s: "handler s = handler st" "autoRegister s = autoRegister st"
    "set (effects st) \<subseteq> set (effects s)"
    "endpointUrl s = (if endpoint_unset st then Some (endpoint_for host port) else endpointUrl st)"
    using register_frame [where ax = ax and st = st and host = host and port = port]
    by (simp_all add: rs)
  show "functionId (snd (run ax nt st port host))
           = functionId (snd (registerWithPlatform ax st host port))"
    and "endpointUrl (snd (run ax nt st port host))
           = (if endpoint_unset st then Some (endpoint_for host port) else endpointUrl st)"
    and "handler (snd (run ax nt st port host)) = handler st"
    and "autoRegister (snd (run ax nt st port host)) = autoRegister st"
    and "Listen port host \<in> set (effects (snd (run ax nt st port host)))"
    and "set (effects st) \<subseteq> set (effects (snd (run ax nt st port host)))"
    and "net_listen nt port host = Listening p
         \<Longrightarrow> fst (run ax nt st port host) = Some (Inr ())
             \<and> server (snd (run ax nt st port host)) = Some (host, port)
             \<and> Bound host p \<in> set (effects (snd (run ax nt st port host)))"
    and "fst (registerWithPlatform ax st host port) = Inl e
         \<Longrightarrow> ConsoleWarn [JStr ''Auto-registration failed:'', JStr (message e)]
               \<in> set (effects (snd (run ax nt st port host)))"
    using assms s
    by (auto simp: run_def Let_def rs split: sum.splits listen_result.splits)
qed




section \<open>The registration record over a lifecycle\<close>

lemma bound_at_iff:
  "bound_at st u \<longleftrightarrow> (\<exists>host port. Bound host port \<in> set (effects st) \<and> endpoint_for host port = u)"
proof
  assume "bound_at st u"
  then obtain e where e: "e \<in> set (effects st)"
    and p: "(case e of Bound host port \<Rightarrow> endpoint_for host port = u | _ \<Rightarrow> False)"
    by (auto simp: bound_at_def list_ex_iff)
  from p e show "\<exists>host port. Bound host port \<in> set (effects st) \<and> endpoint_for host port = u"
    by (cases e) auto
next
  assume "\<exists>host port. Bound host port \<in> set (effects st) \<and> endpoint_for host port = u"
  then show "bound_at st u"
    by (force simp: bound_at_def list_ex_iff)
qed

lemma bound_at_mono:
  "set (effects st) \<subseteq> set (effects st') \<Longrightarrow> bound_at st u \<Longrightarrow> bound_at st' u"
  by (auto simp: bound_at_iff)

lemma execute_catch_frame:
  "functionId (snd (execute_catch t st)) = functionId st"
  "endpointUrl (snd (execute_catch t st)) = endpointUrl st"
  "handler (snd (execute_catch t st)) = handler st"
  "autoRegister (snd (execute_catch t st)) = autoRegister st"
  by (simp_all add: execute_catch_def Let_def split: sum.splits)

lemma execute_catch_effects: "set (effects st) \<subseteq> set (effects (snd (execute_catch t st)))"
  by (auto simp: execute_catch_def Let_def split: sum.splits)

lemma execute_frame:
  "functionId (snd (execute st body)) = functionId st"
  "endpointUrl (snd (execute st body)) = endpointUrl st"
  "handler (snd (execute st body)) = handler st"
  "autoRegister (snd (execute st body)) = autoRegister st"
  by (auto simp: execute_def execute_catch_frame Let_def split: option.splits sum.splits)

lemma execute_effects: "set (effects st) \<subseteq> set (effects (snd (execute st body)))"
proof -
  have "\<And>s x. x \<in> set (effects s) \<Longrightarrow> x \<in> set (effects (snd (execute_catch t s)))" for t
    using execute_catch_effects by blast
  then show ?thesis
    by (auto simp: execute_def Let_def split: option.splits sum.splits)
qed

lemma unregister_frame:
  "functionId (snd (unregisterFromPlatform ax st)) = functionId st"
  "endpointUrl (snd (unregisterFromPlatform ax st)) = endpointUrl st"
  "handler (snd (unregisterFromPlatform ax st)) = handler st"
  "autoRegister (snd (unregisterFromPlatform ax st)) = autoRegister st"
  by (auto simp: unregisterFromPlatform_def unregister_catch_def Let_def split: sum.splits)

lemma unregister_effects:
  "set (effects st) \<subseteq> set (effects (snd (unregisterFromPlatform ax st)))"
  by (auto simp: unregisterFromPlatform_def unregister_catch_def Let_def split: sum.splits)

lemma stop_frame:
  "functionId (stop ax st) = functionId st"
  "endpointUrl (stop ax st) = endpointUrl st"
  "handler (stop ax st) = handler st"
  "autoRegister (stop ax st) = autoRegister st"
  by (auto simp: stop_def Let_def unregister_frame)

lemma stop_effects: "set (effects st) \<subseteq> set (effects (stop ax st))"
  using unregister_effects [of "emit st ServerClose" ax] unregister_effects [of st ax]
  by (auto simp: stop_def Let_def)

lemma setHandler_frame:
  "functionId (setHandler h st) = functionId st"
  "endpointUrl (setHandler h st) = endpointUrl st"
  "autoRegister (setHandler h st) = autoRegister st"
  "effects (setHandler h st) = effects st"
  by (simp_all add: setHandler_def)

lemma backed_frame:
  assumes "backed st" and "functionId st' = functionId st" and "endpointUrl st' = endpointUrl st"
    and "set (effects st) \<subseteq> set (effects st')"
  shows "backed st'"
  using assms by (auto simp: backed_def bound_at_iff split: option.splits)

lemma backed_run:
  assumes "backed st" and "net_listen nt port host = Listening port"
  shows "backed (snd (run ax nt st port host))"
proof (cases "handler st")
  case None
  then show ?thesis using assms by (simp add: run_no_handler)
next
  case (Some h)
  show ?thesis
  proof (cases "autoRegister st")
    case False
    show ?thesis
      using run_unregistered [OF Some False]
      by (intro backed_frame [OF assms(1)]) auto
  next
    case True
    have l: "Bound host port \<in> set (effects (snd (run ax nt st port host)))"
      using run_registered(7) [OF Some True assms(2)] by simp
    have e: "endpointUrl (snd (run ax nt st port host))
                = (if endpoint_unset st then Some (endpoint_for host port) else endpointUrl st)"
      and m: "set (effects st) \<subseteq> set (effects (snd (run ax nt st port host)))"
      using run_registered [OF Some True] by auto
    show ?thesis
    proof (cases "endpoint_unset st")
      case True
      then show ?thesis using l e by (auto simp: backed_def bound_at_iff)
    next
      case False
      then obtain u where u: "endpointUrl st = Some u"
        by (auto simp: endpoint_unset_def split: option.splits)
      with assms have "bound_at st u" by (simp add: backed_def)
      then have "bound_at (snd (run ax nt st port host)) u"
        using m by (rule bound_at_mono [rotated])
      then show ?thesis using False e u by (simp add: backed_def)
    qed
  qed
qed

lemma backed_step:
  assumes "backed st" and "\<not> direct_registration a" and "binds a"
  shows "backed (step st a)"
proof (cases a)
  case (SetHandler h)
  then show ?thesis
    by (auto intro!: backed_frame [OF assms(1)] simp: setHandler_frame)
next
  case (Execute body)
  then show ?thesis
    using execute_effects [of st body]
    by (auto intro!: backed_frame [OF assms(1)] simp: execute_frame)
next
  case (RegisterWithPlatform ax host port)
  then show ?thesis using assms(2) by simp
next
  case (UnregisterFromPlatform ax)
  then show ?thesis
    using unregister_effects [of st ax]
    by (auto intro!: backed_frame [OF assms(1)] simp: unregister_frame)
next
  case (Run ax nt port host)
  then show ?thesis using backed_run [OF assms(1)] assms(3) by simp
next
  case (Stop ax)
  then show ?thesis
    using stop_effects [of st ax]
    by (auto intro!: backed_frame [OF assms(1)] simp: stop_frame)
qed

lemma backed_steps:
  "backed st \<Longrightarrow> \<forall>a \<in> set acts. \<not> direct_registration a \<and> binds a
   \<Longrightarrow> backed (foldl step st acts)"
  by (induction acts arbitrary: st) (auto simp: backed_step)

lemma backed_constructor: "constructor options = Inr st0 \<Longrightarrow> backed st0"
  by (auto simp: constructor_def backed_def)

lemma registered_instance_effects:
  "effects registered_instance
      = [ProcessOn ''SIGINT'', ProcessOn ''SIGTERM'',
         HttpPost ''http://localhost:3000/api/agent-functions''
           (JObj [(''name'', JStr ''Echo''), (''description'', JStr []),
                  (''endpoint'', JStr ''http://localhost:3001/execute''),
                  (''capabilities'', JArr [])]) 10000,
         ConsoleLog [JStr (''Successfully registered function '' @ [CHR 39] @ ''Echo''
                           @ [CHR 39] @ '' with ID: X'')]]"
  by (simp add: registered_instance_def registerWithPlatform_def platform_created_def
      created_body_def registration_accepted_def Let_def echo_instance_def setHandler_def
      fresh_instance_def ensure_endpoint_def endpoint_unset_def endpoint_for_def
      register_url_def registrationData_def emit_def)

text \<open>
  C2, as claimed: whenever the identifier is on record, a listener has been bound
  before. After \<^verbatim>\<open>new AgentFunction({name: 'Echo'})\<close>, \<^verbatim>\<open>setHandler\<close> and a direct
  \<^verbatim>\<open>registerWithPlatform('localhost', 3001)\<close> that the platform accepts, the identifier
  and the endpoint URL are on record, \<open>server\<close> is still null and \<^verbatim>\<open>app.listen\<close> was never
  called. It is also the state in which \<^verbatim>\<open>run\<close> finds the instance after its own
  registration call, before it calls \<^verbatim>\<open>app.listen\<close>: after \<^verbatim>\<open>run(70000)\<close> the record is
  there, \<^verbatim>\<open>app.listen\<close> has thrown and no listener was ever bound.
\<close>

theorem registration_without_listener:
  "constructor echo_options = Inr fresh_instance
   \<and> functionId (foldl step fresh_instance
        [SetHandler echo, RegisterWithPlatform platform_created ''localhost'' (Number ''3001'')])
       = JStr ''X''
   \<and> endpointUrl (foldl step fresh_instance
        [SetHandler echo, RegisterWithPlatform platform_created ''localhost'' (Number ''3001'')])
       = Some ''http://localhost:3001/execute''
   \<and> server (foldl step fresh_instance
        [SetHandler echo, RegisterWithPlatform platform_created ''localhost'' (Number ''3001'')])
       = None
   \<and> \<not> listened (foldl step fresh_instance
        [SetHandler echo, RegisterWithPlatform platform_created ''localhost'' (Number ''3001'')])
   \<and> functionId (foldl step fresh_instance
        [SetHandler echo, Run platform_created net_free (Number ''70000'') ''localhost''])
       = JStr ''X''
   \<and> endpointUrl (foldl step fresh_instance
        [SetHandler echo, Run platform_created net_free (Number ''70000'') ''localhost''])
       = Some ''http://localhost:70000/execute''
   \<and> \<not> bound (foldl step fresh_instance
        [SetHandler echo, Run platform_created net_free (Number ''70000'') ''localhost''])"
proof -
  have s: "foldl step fresh_instance
        [SetHandler echo, RegisterWithPlatform platform_created ''localhost'' (Number ''3001'')]
        = registered_instance"
    by (simp add: registered_instance_def echo_instance_def)
  have "functionId registered_instance = JStr ''X''"
    by (simp add: registered_instance_def register_created)
  moreover have "endpointUrl registered_instance = Some ''http://localhost:3001/execute''"
    by (simp add: registered_instance_def register_frame echo_instance_fields endpoint_for_def)
  moreover have "server registered_instance = None"
    by (simp add: registered_instance_def register_frame echo_instance_fields)
  moreover have "\<not> listened registered_instance"
    by (simp add: listened_def registered_instance_effects)
  moreover have r: "foldl step fresh_instance
        [SetHandler echo, Run platform_created net_free (Number ''70000'') ''localhost'']
        = snd (run platform_created net_free echo_instance (Number ''70000'') ''localhost'')"
    by (simp add: echo_instance_def)
  moreover have "functionId
        (snd (run platform_created net_free echo_instance (Number ''70000'') ''localhost''))
       = JStr ''X''"
    using run_registered(1) [OF echo_instance_fields(1,2)]
    by (simp add: register_created)
  moreover have "endpointUrl
        (snd (run platform_created net_free echo_instance (Number ''70000'') ''localhost''))
       = Some ''http://localhost:70000/execute''"
    using run_registered(2) [OF echo_instance_fields(1,2)]
    by (simp add: echo_instance_fields endpoint_for_def)
  moreover have "\<not> bound
        (snd (run platform_created net_free echo_instance (Number ''70000'') ''localhost''))"
    by (simp add: run_def Let_def echo_instance_fields net_free_def registerWithPlatform_def
        platform_created_def created_body_def registration_accepted_def bound_def)
  ultimately show ?thesis
    unfolding s using constructor_echo by simp
qed

text \<open>
  C2, amended: in every state reached from construction by \<^verbatim>\<open>setHandler\<close>, requests to
  \<^verbatim>\<open>/execute\<close>, \<^verbatim>\<open>run\<close>, \<^verbatim>\<open>stop\<close> and \<^verbatim>\<open>unregisterFromPlatform\<close>, with no direct call of
  \<^verbatim>\<open>registerWithPlatform\<close> and with every \<^verbatim>\<open>app.listen\<close> binding the listener on the port
  it is given, an identifier on record comes with an endpoint URL on record at which a
  listener has been bound by the time the operation has completed.
\<close>

theorem registration_record_backed_by_listener:
  assumes "constructor options = Inr st0"
    and "\<forall>a \<in> set acts. \<not> direct_registration a \<and> binds a"
    and "truthy (functionId (foldl step st0 acts))"
  shows "\<exists>u. endpointUrl (foldl step st0 acts) = Some u \<and> bound_at (foldl step st0 acts) u"
  using backed_steps [OF backed_constructor [OF assms(1)] assms(2)] assms(3)
  by (auto simp: backed_def split: option.splits)

theorem registration_record_backed_by_listener_witness:
  "constructor echo_options = Inr fresh_instance
   \<and> binds (Run platform_created net_free (Number ''3001'') ''localhost'')
   \<and> truthy (functionId (foldl step fresh_instance
                 [SetHandler echo, Run platform_created net_free (Number ''3001'') ''localhost'']))
   \<and> endpointUrl (foldl step fresh_instance
                 [SetHandler echo, Run platform_created net_free (Number ''3001'') ''localhost''])
       = Some ''http://localhost:3001/execute''
   \<and> bound_at (foldl step fresh_instance
                 [SetHandler echo, Run platform_created net_free (Number ''3001'') ''localhost''])
       ''http://localhost:3001/execute''"
proof -
  let ?acts = "[SetHandler echo, Run platform_created net_free (Number ''3001'') ''localhost'']"
  have b: "binds (Run platform_created net_free (Number ''3001'') ''localhost'')"
    by (simp add: net_free_def)
  have a: "\<forall>a \<in> set ?acts. \<not> direct_registration a \<and> binds a"
    using b by simp
  have s: "foldl step fresh_instance ?acts
             = snd (run platform_created net_free echo_instance (Number ''3001'') ''localhost'')"
    by (simp add: echo_instance_def)
  have f: "functionId (foldl step fresh_instance ?acts) = JStr ''X''"
    unfolding s
    using run_registered(1) [OF echo_instance_fields(1,2)]
    by (simp add: register_created)
  have e: "endpointUrl (foldl step fresh_instance ?acts) = Some ''http://localhost:3001/execute''"
    unfolding s
    using run_registered(2) [OF echo_instance_fields(1,2)]
    by (simp add: echo_instance_fields endpoint_for_def)
  have t: "truthy (functionId (foldl step fresh_instance ?acts))"
    unfolding f by simp
  show ?thesis
    using constructor_echo b t e registration_record_backed_by_listener [OF constructor_echo a t]
    unfolding e by simp
qed

lemma step_keeps_functionId:
  assumes "\<not> registers st a"
  shows "functionId (step st a) = functionId st"
proof (cases a)
  case (RegisterWithPlatform ax host port)
  then show ?thesis
    using assms by (simp add: register_unaccepted_frame)
next
  case (Run ax nt port host)
  show ?thesis
  proof (cases "handler st")
    case None
    then show ?thesis using Run by (simp add: run_no_handler)
  next
    case (Some h)
    show ?thesis
    proof (cases "autoRegister st")
      case False
      then show ?thesis using Run run_unregistered(1) [OF Some False] by simp
    next
      case True
      with assms Run Some have "\<not> reply_accepted ax st host port"
        by simp
      then show ?thesis
        using Run run_registered(1) [OF Some True, of ax nt port host]
        by (simp add: register_unaccepted_frame)
    qed
  qed
qed (simp_all add: setHandler_frame execute_frame unregister_frame stop_frame)

lemma steps_keep_functionId:
  "no_registration st acts \<Longrightarrow> functionId (foldl step st acts) = functionId st"
  by (induction acts arbitrary: st) (simp_all add: step_keeps_functionId)

text \<open>
  C3, as claimed: after \<^verbatim>\<open>unregisterFromPlatform\<close> returns true the record is cleared.
  On the registered echo instance, with a platform that answers the delete with 200, the
  call returns true and the identifier is still \<^verbatim>\<open>"X"\<close>.
\<close>

theorem unregister_success_keeps_id:
  "functionId registered_instance = JStr ''X''
   \<and> fst (unregisterFromPlatform platform_created registered_instance) = True
   \<and> functionId (snd (unregisterFromPlatform platform_created registered_instance)) = JStr ''X''
   \<and> functionId (snd (unregisterFromPlatform platform_created registered_instance)) \<noteq> JNull"
proof -
  have r: "functionId registered_instance = JStr ''X''"
    by (simp add: registered_instance_def register_created)
  have "fst (unregisterFromPlatform platform_created registered_instance) = True"
    by (simp add: unregisterFromPlatform_def unregister_url_def r platform_created_def Let_def)
  then show ?thesis
    by (simp add: r unregister_frame)
qed

text \<open>
  C3, amended: the identifier is null from construction for as long as no registration
  call has had its reply accepted, and nothing clears it afterwards:
  \<^verbatim>\<open>unregisterFromPlatform\<close>, whatever it returns, and \<^verbatim>\<open>stop\<close> leave the identifier as it
  was.
\<close>

theorem functionId_null_until_registered_never_cleared:
  "(constructor options = Inr st0 \<and> no_registration st0 acts
      \<longrightarrow> functionId (foldl step st0 acts) = JNull)
   \<and> functionId (snd (unregisterFromPlatform ax st)) = functionId st
   \<and> functionId (stop ax st) = functionId st"
  by (auto simp: steps_keep_functionId unregister_frame stop_frame constructor_def)

theorem functionId_null_until_registered_never_cleared_witness:
  "constructor echo_options = Inr fresh_instance
   \<and> no_registration fresh_instance
        [SetHandler echo, Run platform_down net_free (Number ''3001'') ''localhost'',
         Stop platform_down]
   \<and> functionId (foldl step fresh_instance
        [SetHandler echo, Run platform_down net_free (Number ''3001'') ''localhost'',
         Stop platform_down]) = JNull
   \<and> functionId (snd (unregisterFromPlatform platform_created registered_instance)) = JStr ''X''
   \<and> functionId (stop platform_created registered_instance) = JStr ''X''"
proof -
  have n: "no_registration fresh_instance
        [SetHandler echo, Run platform_down net_free (Number ''3001'') ''localhost'',
         Stop platform_down]"
    by (simp add: register_down)
  have r: "functionId registered_instance = JStr ''X''"
    by (simp add: registered_instance_def register_created)
  show ?thesis
    using constructor_echo n r
      functionId_null_until_registered_never_cleared
        [of echo_options fresh_instance
            "[SetHandler echo, Run platform_down net_free (Number ''3001'') ''localhost'',
              Stop platform_down]"
            platform_created registered_instance]
    by simp
qed

end
